theory Spec2Isabelle
  imports Complex_Main "HOL-Library.AList"
begin

section \<open>Seq2SeqModel: a shallow embedding of the control logic\<close>

text \<open>
  The embedded file is \<^verbatim>\<open>simpletransformers/seq2seq/seq2seq_model.py\<close>. Tensor
  computation, tokenisation, generation, the optimizer and the file system are external to
  it; they appear here as parameters (the record \<open>env\<close> for \<open>train\<close>, function
  arguments for \<open>predict\<close>). Python floats are modelled as \<open>real\<close> (the one
  float product whose rounding decides an integer is a parameter), Python integers as
  \<open>int\<close>, exceptions as values of \<open>error\<close>. Calls that only log (logger, tensorboard,
  wandb, tqdm, print) are left out.
\<close>

datatype error =
  ZeroDivisionError | ValueError | KeyError | TypeError | UnboundLocalError | ImportError

subsection \<open>Strings: \<open>str.split\<close> and \<open>int\<close>\<close>

text \<open>
  \<open>s.split(sep)\<close> for a one-character separator: the fields between the separators, in
  order; the result always has at least one field (\<open>"".split("-") == [""]\<close>).
\<close>

fun split_on :: "char \<Rightarrow> string \<Rightarrow> string list" where
  "split_on sep [] = [[]]"
| "split_on sep (c # cs) =
     (if c = sep then [] # split_on sep cs
      else (case split_on sep cs of
              [] \<Rightarrow> [[c]]
            | p # ps \<Rightarrow> (c # p) # ps))"

text \<open>
  \<open>int(s)\<close> on a string, base 10, for ASCII text: surrounding whitespace (space, tab,
  line feed, vertical tab, form feed, carriage return) is stripped, one sign is allowed, then decimal digits, where single underscores may stand between two
  digits. Anything else raises \<open>ValueError\<close>. Characters outside ASCII are not digits here.
\<close>

definition is_space :: "char \<Rightarrow> bool" where
  "is_space c = ((of_char c :: nat) \<in> {9, 10, 11, 12, 13, 32})"

definition is_digit :: "char \<Rightarrow> bool" where
  "is_digit c = (48 \<le> (of_char c :: nat) \<and> (of_char c :: nat) \<le> 57)"

definition digit_val :: "char \<Rightarrow> nat" where
  "digit_val c = of_char c - 48"

definition strip :: "string \<Rightarrow> string" where
  "strip s = rev (dropWhile is_space (rev (dropWhile is_space s)))"

fun digits_value :: "nat \<Rightarrow> string \<Rightarrow> nat option" where
  "digits_value acc [] = Some acc"
| "digits_value acc (c # cs) =
     (if is_digit c then digits_value (10 * acc + digit_val c) cs
      else if c = CHR ''_'' then
        (case cs of
           [] \<Rightarrow> None
         | d # ds \<Rightarrow> if is_digit d then digits_value (10 * acc + digit_val d) ds else None)
      else None)"

definition unsigned_value :: "string \<Rightarrow> nat option" where
  "unsigned_value u =
     (case u of
        [] \<Rightarrow> None
      | c # cs \<Rightarrow> if is_digit c then digits_value (digit_val c) cs else None)"

definition py_int :: "string \<Rightarrow> error + int" where
  "py_int s =
     (let t = strip s;
          neg = (case t of [] \<Rightarrow> False | c # _ \<Rightarrow> c = CHR ''-'');
          u = (case t of [] \<Rightarrow> [] | c # r \<Rightarrow> if c = CHR ''-'' \<or> c = CHR ''+'' then r else t)
      in case unsigned_value u of
           None \<Rightarrow> Inl ValueError
         | Some n \<Rightarrow> Inr (if neg then - int n else int n))"

text \<open>
  \<open>"{}".format(n)\<close> for \<open>n \<ge> 0\<close>, as in the checkpoint names
  \<open>"checkpoint-{}".format(global_step)\<close> that \<open>train\<close> writes.
\<close>

definition digit_char :: "nat \<Rightarrow> char" where
  "digit_char d = char_of (48 + d)"

fun str_of_nat :: "nat \<Rightarrow> string" where
  "str_of_nat n =
     (if n < 10 then [digit_char n] else str_of_nat (n div 10) @ [digit_char (n mod 10)])"

declare str_of_nat.simps [simp del]

subsection \<open>Configuration and environment of \<open>train\<close>\<close>

text \<open>
  The keys of \<open>self.args\<close> that \<open>train\<close> reads, one field per key, with the type the
  code uses the value at.
\<close>

record args =
  max_steps :: int
  num_train_epochs :: int
  gradient_accumulation_steps :: int
  warmup_ratio :: real
  warmup_steps :: int
  model_name :: string
  fp16 :: bool
  logging_steps :: int
  save_steps :: int
  evaluate_during_training :: bool
  evaluate_during_training_steps :: int
  save_eval_checkpoints :: bool
  save_best_model :: bool
  save_model_every_epoch :: bool
  early_stopping_metric :: string
  early_stopping_metric_minimize :: bool
  early_stopping_delta :: real
  use_early_stopping :: bool
  early_stopping_patience :: int
  early_stopping_consider_epochs :: bool

text \<open>
  What \<open>train\<close> gets from outside: \<open>n_batches\<close> is \<open>len(train_dataloader)\<close>,
  \<open>path_exists\<close> is \<open>os.path.exists\<close>, \<open>apex_available\<close> says whether
  \<open>from apex import amp\<close> succeeds, \<open>batch_loss ep step\<close> is \<open>loss.item()\<close> of the
  batch \<open>step\<close> of epoch \<open>ep\<close>, \<open>eval_results k\<close> is the dict returned by the
  \<open>k\<close>-th call of \<open>self.eval_model\<close> (its items in iteration order),
  \<open>metric_names\<close> are the keys of \<open>**kwargs\<close>, and \<open>float_times t r\<close> is the float
  that \<open>t * r\<close> evaluates to for an integer \<open>t\<close> and a float \<open>r\<close>: the product
  rounded to a double, which need not be the exact product (\<open>100 * 0.07\<close> is
  \<open>7.000000000000001\<close>).
\<close>

record env =
  n_batches :: nat
  path_exists :: "string \<Rightarrow> bool"
  apex_available :: bool
  batch_loss :: "nat \<Rightarrow> nat \<Rightarrow> real"
  eval_results :: "nat \<Rightarrow> (string \<times> real) list"
  metric_names :: "string list"
  float_times :: "int \<Rightarrow> real \<Rightarrow> real"

text \<open>
  The directories \<open>_save_model\<close> is called with:
  \<open>checkpoint-<step>\<close>, \<open>checkpoint-<step>-epoch-<n>\<close> (both under \<open>output_dir\<close>) and
  \<open>args["best_model_dir"]\<close>.
\<close>

datatype save_dir = StepCheckpoint int | EpochCheckpoint int int | BestModelDir

datatype cell = IntCell int | FloatCell real

text \<open>
  \<open>training_progress_scores\<close> is a dict of lists; its key order is the column order of the
  data frame built from it, so it is an association list.
\<close>

type_synonym table = "(string \<times> cell list) list"

record train_state =
  global_step :: int
  tr_loss :: real
  logging_loss :: real
  epoch_number :: int
  best_eval_metric :: "real option"
  early_stopping_counter :: int
  steps_trained_in_current_epoch :: int
  epochs_trained :: int
  current_loss :: "real option"
  training_progress_scores :: table
  progress_file :: "table option"
  n_evals :: nat
  saves :: "save_dir list"

text \<open>
  The body of the loop either goes on, or leaves \<open>train\<close> through a \<open>return\<close>, or raises.
\<close>

datatype outcome =
  Running train_state
| Returned train_state "int \<times> real"
| Raised error

subsection \<open>Early stopping\<close>

text \<open>\<open>not best_eval_metric\<close> is true for \<open>None\<close> and for \<open>0.0\<close>.\<close>

definition truthy :: "real option \<Rightarrow> bool" where
  "truthy b = (case b of None \<Rightarrow> False | Some x \<Rightarrow> x \<noteq> 0)"

definition save_model :: "save_dir \<Rightarrow> train_state \<Rightarrow> train_state" where
  "save_model d s = s\<lparr>saves := saves s @ [d]\<rparr>"

text \<open>\<open>return global_step, tr_loss / global_step\<close>\<close>

definition do_return :: "train_state \<Rightarrow> outcome" where
  "do_return s =
     (if global_step s = 0 then Raised ZeroDivisionError
      else Returned s (global_step s, tr_loss s / real_of_int (global_step s)))"

text \<open>
  \<open>best_eval_metric = results[...]\<close> followed by the save of the best model
  (lines 484--488, 494--498, 521--525 and their copies at epoch level).
\<close>

definition record_best :: "args \<Rightarrow> real \<Rightarrow> train_state \<Rightarrow> train_state" where
  "record_best a m s =
     (let s' = s\<lparr>best_eval_metric := Some m\<rparr>
      in if save_best_model a then save_model BestModelDir s' else s')"

text \<open>
  The \<open>else\<close> branch of the comparison (lines 501--515, 528--542, 584--596, 606--618).
  \<open>gate\<close> is \<open>args["use_early_stopping"]\<close> at step level and
  \<open>args["use_early_stopping"] and args["early_stopping_consider_epochs"]\<close> at epoch level.
\<close>

definition no_improvement :: "args \<Rightarrow> bool \<Rightarrow> train_state \<Rightarrow> outcome" where
  "no_improvement a gate s =
     (if gate then
        (if early_stopping_counter s < early_stopping_patience a
         then Running (s\<lparr>early_stopping_counter := early_stopping_counter s + 1\<rparr>)
         else do_return s)
      else Running s)"

definition improvement :: "args \<Rightarrow> real \<Rightarrow> train_state \<Rightarrow> outcome" where
  "improvement a m s = Running ((record_best a m s)\<lparr>early_stopping_counter := 0\<rparr>)"

text \<open>Lines 483--542 (step level) and 571--618 (epoch level); \<open>m\<close> is the metric's value.\<close>

definition early_stopping :: "args \<Rightarrow> bool \<Rightarrow> real \<Rightarrow> train_state \<Rightarrow> outcome" where
  "early_stopping a gate m s =
     (let s1 = (if \<not> truthy (best_eval_metric s) then record_best a m s else s)
      in case best_eval_metric s1 of
           None \<Rightarrow> Raised TypeError
         | Some best \<Rightarrow>
             if truthy (Some best) \<and> early_stopping_metric_minimize a then
               (if m - best < early_stopping_delta a
                then improvement a m s1 else no_improvement a gate s1)
             else
               (if m - best > early_stopping_delta a
                then improvement a m s1 else no_improvement a gate s1))"

subsection \<open>The progress table\<close>

text \<open>\<open>_create_training_progress_scores\<close>: the dict display with \<open>**extra_metrics\<close> last.\<close>

definition create_training_progress_scores :: "string list \<Rightarrow> table" where
  "create_training_progress_scores kwargs =
     foldl (\<lambda>d k. AList.update k [] d)
       [(''global_step'', []), (''eval_loss'', []), (''train_loss'', [])] kwargs"

text \<open>\<open>d[key].append(v)\<close>, a \<open>KeyError\<close> when the key is missing.\<close>

definition append_to :: "string \<Rightarrow> cell \<Rightarrow> table \<Rightarrow> error + table" where
  "append_to k v t =
     (case map_of t k of
        None \<Rightarrow> Inl KeyError
      | Some col \<Rightarrow> Inr (AList.update k (col @ [v]) t))"

fun append_results :: "(string \<times> real) list \<Rightarrow> table \<Rightarrow> error + table" where
  "append_results [] t = Inr t"
| "append_results ((k, v) # kvs) t =
     (case append_to k (FloatCell v) t of
        Inl err \<Rightarrow> Inl err
      | Inr t' \<Rightarrow> append_results kvs t')"

text \<open>
  \<open>pd.DataFrame(d)\<close> on a dict of lists raises \<open>ValueError\<close> unless all lists have the
  same length; its columns are the keys of \<open>d\<close> in order.
\<close>

definition same_lengths :: "table \<Rightarrow> bool" where
  "same_lengths t =
     (case t of [] \<Rightarrow> True | (_, c) # r \<Rightarrow> list_all (\<lambda>(_, c'). length c' = length c) r)"

text \<open>
  One evaluation during training (lines 457--542 and 554--618): evaluate, save the
  checkpoint, add the row, write the file, update the early-stopping state.
\<close>

definition evaluate_event :: "env \<Rightarrow> args \<Rightarrow> bool \<Rightarrow> save_dir \<Rightarrow> train_state \<Rightarrow> outcome" where
  "evaluate_event e a gate dir s =
     (let results = eval_results e (n_evals s);
          s1 = s\<lparr>n_evals := Suc (n_evals s)\<rparr>;
          s2 = (if save_eval_checkpoints a then save_model dir s1 else s1)
      in case append_to ''global_step'' (IntCell (global_step s2)) (training_progress_scores s2) of
           Inl err \<Rightarrow> Raised err
         | Inr t1 \<Rightarrow>
            (case current_loss s2 of
               None \<Rightarrow> Raised UnboundLocalError
             | Some cl \<Rightarrow>
                (case append_to ''train_loss'' (FloatCell cl) t1 of
                   Inl err \<Rightarrow> Raised err
                 | Inr t2 \<Rightarrow>
                    (case append_results results t2 of
                       Inl err \<Rightarrow> Raised err
                     | Inr t3 \<Rightarrow>
                        if \<not> same_lengths t3 then Raised ValueError
                        else
                          (let s3 = s2\<lparr>training_progress_scores := t3, progress_file := Some t3\<rparr>
                           in case map_of results (early_stopping_metric a) of
                                None \<Rightarrow> Raised KeyError
                              | Some m \<Rightarrow> early_stopping a gate m s3)))))"

subsection \<open>The training loop\<close>

text \<open>Lines 422--542: the optimizer update and the actions gated by the step count.\<close>

definition optimizer_update :: "env \<Rightarrow> args \<Rightarrow> train_state \<Rightarrow> outcome" where
  "optimizer_update e a s =
     (let s1 = s\<lparr>global_step := global_step s + 1\<rparr>;
          s2 = (if logging_steps a > 0 \<and> global_step s1 mod logging_steps a = 0
                then s1\<lparr>logging_loss := tr_loss s1\<rparr> else s1);
          s3 = (if save_steps a > 0 \<and> global_step s2 mod save_steps a = 0
                then save_model (StepCheckpoint (global_step s2)) s2 else s2)
      in if evaluate_during_training a
            \<and> evaluate_during_training_steps a > 0
            \<and> global_step s3 mod evaluate_during_training_steps a = 0
         then evaluate_event e a (use_early_stopping a) (StepCheckpoint (global_step s3)) s3
         else Running s3)"

text \<open>Lines 387--542: one iteration of the loop over the batches.\<close>

definition batch_step :: "env \<Rightarrow> args \<Rightarrow> nat \<Rightarrow> nat \<Rightarrow> train_state \<Rightarrow> outcome" where
  "batch_step e a ep step s =
     (if steps_trained_in_current_epoch s > 0
      then Running (s\<lparr>steps_trained_in_current_epoch := steps_trained_in_current_epoch s - 1\<rparr>)
      else
        (let l = batch_loss e ep step;
             gas = gradient_accumulation_steps a;
             l' = (if gas > 1 then l / real_of_int gas else l);
             s1 = s\<lparr>current_loss := Some l, tr_loss := tr_loss s + l'\<rparr>
         in if gas = 0 then Raised ZeroDivisionError
            else if (int step + 1) mod gas = 0 then optimizer_update e a s1
            else Running s1))"

fun run_batches :: "env \<Rightarrow> args \<Rightarrow> nat \<Rightarrow> nat list \<Rightarrow> train_state \<Rightarrow> outcome" where
  "run_batches e a ep [] s = Running s"
| "run_batches e a ep (step # steps) s =
     (case batch_step e a ep step s of
        Running s' \<Rightarrow> run_batches e a ep steps s'
      | Returned s' v \<Rightarrow> Returned s' v
      | Raised err \<Rightarrow> Raised err)"

text \<open>Lines 544--618: the end of an epoch.\<close>

definition epoch_end :: "env \<Rightarrow> args \<Rightarrow> train_state \<Rightarrow> outcome" where
  "epoch_end e a s =
     (let s1 = s\<lparr>epoch_number := epoch_number s + 1\<rparr>;
          dir = EpochCheckpoint (global_step s1) (epoch_number s1);
          s2 = (if save_model_every_epoch a then save_model dir s1 else s1)
      in if evaluate_during_training a
         then evaluate_event e a
                (use_early_stopping a \<and> early_stopping_consider_epochs a) dir s2
         else Running s2)"

fun run_epochs :: "env \<Rightarrow> args \<Rightarrow> nat list \<Rightarrow> train_state \<Rightarrow> outcome" where
  "run_epochs e a [] s = Running s"
| "run_epochs e a (ep # eps) s =
     (if epochs_trained s > 0
      then run_epochs e a eps (s\<lparr>epochs_trained := epochs_trained s - 1\<rparr>)
      else
        (case run_batches e a ep [0..<n_batches e] s of
           Running s1 \<Rightarrow>
             (case epoch_end e a s1 of
                Running s2 \<Rightarrow> run_epochs e a eps s2
              | Returned s2 v \<Rightarrow> Returned s2 v
              | Raised err \<Rightarrow> Raised err)
         | Returned s1 v \<Rightarrow> Returned s1 v
         | Raised err \<Rightarrow> Raised err))"

text \<open>
  Lines 294--312: \<open>t_total\<close> and the two keys of \<open>args\<close> that \<open>train\<close> assigns. The
  result is the updated \<open>args\<close> with \<open>t_total\<close>.
\<close>

definition train_setup :: "env \<Rightarrow> args \<Rightarrow> error + (args \<times> int)" where
  "train_setup e a =
     (let nb = int (n_batches e); gas = gradient_accumulation_steps a
      in if gas = 0 then Inl ZeroDivisionError
         else if max_steps a > 0 \<and> nb div gas = 0 then Inl ZeroDivisionError
         else
           (let a1 = (if max_steps a > 0
                      then a\<lparr>num_train_epochs := max_steps a div (nb div gas) + 1\<rparr> else a);
                t_total = (if max_steps a > 0 then max_steps a
                           else nb div gas * num_train_epochs a);
                w = \<lceil>float_times e t_total (warmup_ratio a)\<rceil>
            in Inr (a1\<lparr>warmup_steps := (if warmup_steps a1 = 0 then w else warmup_steps a1)\<rparr>,
                    t_total)))"

text \<open>Lines 342--350: the local variables before the loop.\<close>

definition initial_state :: train_state where
  "initial_state =
     \<lparr>global_step = 0, tr_loss = 0, logging_loss = 0, epoch_number = 0,
      best_eval_metric = None, early_stopping_counter = 0,
      steps_trained_in_current_epoch = 0, epochs_trained = 0, current_loss = None,
      training_progress_scores = [], progress_file = None, n_evals = 0, saves = []\<rparr>"

text \<open>
  Lines 352--371: the step of the checkpoint the model was loaded from, read off the
  name of its directory. Only \<open>ValueError\<close> is caught.
\<close>

definition checkpoint_suffix :: "string \<Rightarrow> string" where
  "checkpoint_suffix name =
     (let parts = split_on (CHR ''-'') (last (split_on (CHR ''/'') name))
      in if length parts > 2 then parts ! 1 else last parts)"

definition resume :: "env \<Rightarrow> args \<Rightarrow> train_state \<Rightarrow> error + train_state" where
  "resume e a s =
     (if model_name a \<noteq> [] \<and> path_exists e (model_name a) then
        (case py_int (checkpoint_suffix (model_name a)) of
           Inl err \<Rightarrow> Inr s
         | Inr n \<Rightarrow>
             (let nb = int (n_batches e); gas = gradient_accumulation_steps a
              in if gas = 0 then Inl ZeroDivisionError
                 else if nb div gas = 0 then Inl ZeroDivisionError
                 else Inr (s\<lparr>global_step := n,
                             epochs_trained := n div (nb div gas),
                             steps_trained_in_current_epoch := n mod (nb div gas)\<rparr>)))
      else Inr s)"

text \<open>
  \<open>train\<close>. The first component of the result is \<open>self.args\<close> as \<open>train\<close> leaves it
  (\<open>args = self.args\<close> is an alias), the second is how \<open>train\<close> ends; it is never
  \<open>Running\<close>.
\<close>

definition train :: "env \<Rightarrow> args \<Rightarrow> args \<times> outcome" where
  "train e a =
     (case train_setup e a of
        Inl err \<Rightarrow> (a, Raised err)
      | Inr (a1, t_total) \<Rightarrow>
          if fp16 a1 \<and> \<not> apex_available e then (a1, Raised ImportError)
          else
            (case resume e a1 initial_state of
               Inl err \<Rightarrow> (a1, Raised err)
             | Inr s0 \<Rightarrow>
                 (let s1 = (if evaluate_during_training a1
                            then s0\<lparr>training_progress_scores :=
                                      create_training_progress_scores (metric_names e)\<rparr>
                            else s0)
                  in case run_epochs e a1 [0..<nat (num_train_epochs a1)] s1 of
                       Running s2 \<Rightarrow> (a1, do_return s2)
                     | Returned s2 v \<Rightarrow> (a1, Returned s2 v)
                     | Raised err \<Rightarrow> (a1, Raised err))))"

subsection \<open>\<open>predict\<close>\<close>

text \<open>\<open>range(0, n, step)\<close>: a zero step raises \<open>ValueError\<close>, a negative one gives no index.\<close>

definition range_from_zero :: "nat \<Rightarrow> int \<Rightarrow> error + nat list" where
  "range_from_zero n step =
     (if step = 0 then Inl ValueError
      else if step < 0 then Inr []
      else Inr (map (\<lambda>k. k * nat step) [0..<(n + nat step - 1) div nat step]))"

text \<open>
  \<open>predict\<close> (lines 709--760). \<open>batch_encode\<close> is the call of
  \<open>encoder_tokenizer.batch_encode_plus\<close> for a batch, \<open>generate\<close> the call of
  \<open>self.model.generate\<close> for the model type at hand, giving the rows of its result, and
  \<open>decode skip_special_tokens clean_up_tokenization_spaces\<close> is
  \<open>decoder_tokenizer.decode\<close>. The slice \<open>to_predict[i : i + n]\<close> is taken at
  \<open>0 \<le> i\<close> and \<open>0 < n\<close> only.
\<close>

definition predict ::
  "(string list \<Rightarrow> 'enc) \<Rightarrow> ('enc \<Rightarrow> 'gen list) \<Rightarrow> (bool \<Rightarrow> bool \<Rightarrow> 'gen \<Rightarrow> string)
     \<Rightarrow> int \<Rightarrow> string list \<Rightarrow> error + string list" where
  "predict batch_encode generate decode eval_batch_size to_predict =
     (case range_from_zero (length to_predict) eval_batch_size of
        Inl err \<Rightarrow> Inl err
      | Inr starts \<Rightarrow>
          (let batches = map (\<lambda>i. take (nat eval_batch_size) (drop i to_predict)) starts;
               all_outputs = concat (map (\<lambda>batch. generate (batch_encode batch)) batches)
           in Inr (map (decode True True) all_outputs)))"

subsection \<open>The configuration built by \<open>__init__\<close>\<close>

text \<open>
  The values of \<open>self.args\<close>, and their truth value in a condition. The dict itself is a
  map: only the value at each key matters here.
\<close>

datatype pyval = PNone | PBool bool | PInt int | PFloat real | PStr string

type_synonym config = "string \<rightharpoonup> pyval"

definition is_true :: "pyval \<Rightarrow> bool" where
  "is_true v =
     (case v of
        PNone \<Rightarrow> False
      | PBool b \<Rightarrow> b
      | PInt i \<Rightarrow> i \<noteq> 0
      | PFloat x \<Rightarrow> x \<noteq> 0
      | PStr s \<Rightarrow> s \<noteq> [])"

text \<open>An optional string argument in a condition: \<open>None\<close> and \<open>""\<close> are false.\<close>

definition given :: "string option \<Rightarrow> bool" where
  "given x = (case x of None \<Rightarrow> False | Some s \<Rightarrow> s \<noteq> [])"

definition text_of :: "string option \<Rightarrow> string" where
  "text_of x = (case x of None \<Rightarrow> [] | Some s \<Rightarrow> s)"

text \<open>The dict display of lines 123--134.\<close>

definition builtin_args :: config where
  "builtin_args =
     map_of
       [(''dataset_class'', PNone),
        (''do_sample'', PBool False),
        (''max_steps'', PInt (- 1)),
        (''evaluate_generated_text'', PBool False),
        (''num_beams'', PInt 1),
        (''max_length'', PInt 20),
        (''repetition_penalty'', PFloat 1),
        (''length_penalty'', PFloat 2),
        (''early_stopping'', PBool True),
        (''preprocess_inputs'', PBool True)]"

text \<open>
  Lines 123--139. \<open>global_args\<close> is imported from a module that is not part of the
  sources at hand, so it is a parameter. \<open>if args:\<close> skips \<open>None\<close> and the empty dict.
\<close>

definition merge_args :: "config \<Rightarrow> config option \<Rightarrow> config" where
  "merge_args global_args user_args =
     (case user_args of
        None \<Rightarrow> builtin_args ++ global_args
      | Some u \<Rightarrow> (builtin_args ++ global_args) ++ u)"

text \<open>The keys of \<open>MODEL_CLASSES\<close>.\<close>

definition MODEL_CLASSES :: "string list" where
  "MODEL_CLASSES =
     [''auto'', ''bert'', ''roberta'', ''distilbert'', ''camembert'', ''electra'', ''bart'']"

record init_params =
  encoder_type :: "string option"
  encoder_name :: "string option"
  decoder_name :: "string option"
  encoder_decoder_type :: "string option"
  encoder_decoder_name :: "string option"
  config_given :: bool
  user_args :: "config option"
  use_cuda :: bool

text \<open>Lines 194--199 and 201--206: the two keys \<open>__init__\<close> derives from its arguments.\<close>

definition init_model_name :: "init_params \<Rightarrow> string" where
  "init_model_name p =
     (if given (encoder_decoder_name p) then text_of (encoder_decoder_name p)
      else if given (encoder_name p) \<and> given (decoder_name p)
      then text_of (encoder_name p) @ ''-'' @ text_of (decoder_name p)
      else ''encoder-decoder'')"

definition init_model_type :: "init_params \<Rightarrow> string" where
  "init_model_type p =
     (if given (encoder_decoder_type p) then text_of (encoder_decoder_type p)
      else if given (encoder_type p) then text_of (encoder_type p) @ ''-bert''
      else ''encoder-decoder'')"

text \<open>
  Lines 161--164: the key looked up in \<open>MODEL_CLASSES\<close>; a key that is not there,
  \<open>None\<close> included, raises \<open>KeyError\<close>.
\<close>

definition registry_key_known :: "init_params \<Rightarrow> bool" where
  "registry_key_known p =
     (case (if given (encoder_decoder_type p) then encoder_decoder_type p else encoder_type p) of
        None \<Rightarrow> False
      | Some k \<Rightarrow> k \<in> set MODEL_CLASSES)"

text \<open>
  \<open>self.args\<close> at the end of \<open>__init__\<close> (lines 101--206), or the exception raised.
  \<open>cuda_available\<close> is \<open>torch.cuda.is_available()\<close>, \<open>wandb_available\<close> the module's
  flag. Seeding the random generators and loading the pretrained weights are left out.
\<close>

definition init_args :: "config \<Rightarrow> bool \<Rightarrow> bool \<Rightarrow> init_params \<Rightarrow> error + config" where
  "init_args global_args cuda_available wandb_available p =
     (if \<not> config_given p
         \<and> \<not> ((given (encoder_name p) \<and> given (decoder_name p)) \<or> given (encoder_decoder_name p))
      then Inl ValueError
      else if \<not> config_given p \<and> \<not> (given (encoder_type p) \<or> given (encoder_decoder_type p))
      then Inl ValueError
      else if use_cuda p \<and> \<not> cuda_available then Inl ValueError
      else
        (let a1 = merge_args global_args (user_args p);
             a2 = (if \<not> use_cuda p then a1(''fp16'' \<mapsto> PBool False) else a1)
         in if \<not> registry_key_known p then Inl KeyError
            else
              (case a2 ''wandb_project'' of
                 None \<Rightarrow> Inl KeyError
               | Some w \<Rightarrow>
                  (let a3 = (if is_true w \<and> \<not> wandb_available
                             then a2(''wandb_project'' \<mapsto> PNone) else a2)
                   in Inr (a3(''model_name'' \<mapsto> PStr (init_model_name p),
                              ''model_type'' \<mapsto> PStr (init_model_type p)))))))"

text \<open>Arguments of \<open>__init__\<close> and a stand-in for \<open>global_args\<close> to run it on.\<close>

definition example_global_args :: config where
  "example_global_args =
     map_of
       [(''eval_batch_size'', PInt 8),
        (''fp16'', PBool True),
        (''max_seq_length'', PInt 128),
        (''wandb_project'', PNone)]"

definition example_init :: init_params where
  "example_init =
     \<lparr>encoder_type = None, encoder_name = None, decoder_name = None,
      encoder_decoder_type = Some ''bart'', encoder_decoder_name = Some ''facebook/bart-large'',
      config_given = False,
      user_args = Some (map_of [(''fp16'', PBool True), (''num_beams'', PInt 4),
                                (''wandb_project'', PStr ''runs'')]),
      use_cuda = False\<rparr>"

subsection \<open>Observing an outcome\<close>

text \<open>The state the loop has reached, unless it raised.\<close>

definition state_of :: "outcome \<Rightarrow> train_state option" where
  "state_of r = (case r of Running s \<Rightarrow> Some s | Returned s v \<Rightarrow> Some s | Raised err \<Rightarrow> None)"


subsection \<open>Sample inputs\<close>

text \<open>
  A configuration and an environment to run the definitions on. The sample environment
  multiplies exactly.
\<close>

definition example_args :: args where
  "example_args =
     \<lparr>max_steps = - 1, num_train_epochs = 1, gradient_accumulation_steps = 1,
      warmup_ratio = 0.06, warmup_steps = 0, model_name = ''outputs/checkpoint-3'',
      fp16 = False, logging_steps = 50, save_steps = 2000,
      evaluate_during_training = False, evaluate_during_training_steps = 2000,
      save_eval_checkpoints = True, save_best_model = True, save_model_every_epoch = True,
      early_stopping_metric = ''eval_loss'', early_stopping_metric_minimize = True,
      early_stopping_delta = 0, use_early_stopping = False, early_stopping_patience = 3,
      early_stopping_consider_epochs = False\<rparr>"

definition example_env :: env where
  "example_env =
     \<lparr>n_batches = 2, path_exists = (\<lambda>p. False), apex_available = False,
      batch_loss = (\<lambda>ep step. 1), eval_results = (\<lambda>k. [(''eval_loss'', 1)]),
      metric_names = [], float_times = (\<lambda>t r. real_of_int t * r)\<rparr>"


text \<open>
  A run that resumes from \<open>outputs/checkpoint-5\<close>: six batches an epoch, two accumulation
  steps, two epochs.
\<close>

definition resumed_env :: env where
  "resumed_env =
     example_env\<lparr>n_batches := 6, path_exists := (\<lambda>p. p = ''outputs/checkpoint-5'')\<rparr>"

definition resumed_args :: args where
  "resumed_args =
     example_args\<lparr>gradient_accumulation_steps := 2, model_name := ''outputs/checkpoint-5'',
        num_train_epochs := 2\<rparr>"






section \<open>Properties\<close>

subsection \<open>The mean loss returned by \<open>train\<close>\<close>

text \<open>
  C10. The claim: whenever \<open>train\<close> reaches a \<open>return\<close>, \<open>global_step\<close> is positive,
  so that \<open>tr_loss / global_step\<close> is defined, also with \<open>num_train_epochs = 0\<close> and
  with more accumulation steps than batches. The code does not ensure it. With no epoch,
  or with two batches an epoch and three accumulation steps, no optimizer update happens,
  the final \<open>return\<close> is reached with \<open>global_step = 0\<close>, and the division raises
  \<open>ZeroDivisionError\<close>.
\<close>

theorem train_divides_by_zero_step:
  "snd (train example_env (example_args\<lparr>num_train_epochs := 0\<rparr>)) = Raised ZeroDivisionError
   \<and> snd (train example_env (example_args\<lparr>gradient_accumulation_steps := 3\<rparr>))
       = Raised ZeroDivisionError"
  by (simp add: train_def train_setup_def example_args_def example_env_def resume_def
      initial_state_def do_return_def batch_step_def epoch_end_def save_model_def upt_rec)

subsection \<open>The early-stopping state after an evaluation\<close>







subsection \<open>What \<open>train\<close> does to \<open>self.args\<close>\<close>

lemma fst_train:
  "fst (train e a) = (case train_setup e a of Inl err \<Rightarrow> a | Inr (a1, t) \<Rightarrow> a1)"
  by (simp add: train_def Let_def split: sum.splits outcome.splits prod.splits)

lemma train_setup_raises:
  assumes "gradient_accumulation_steps a = 0
           \<or> 0 < max_steps a \<and> int (n_batches e) div gradient_accumulation_steps a = 0"
  shows "train_setup e a = Inl ZeroDivisionError"
  using assms by (auto simp add: train_setup_def Let_def)

lemma train_setup_assigns:
  assumes "\<not> (gradient_accumulation_steps a = 0
           \<or> 0 < max_steps a \<and> int (n_batches e) div gradient_accumulation_steps a = 0)"
  shows "\<exists>t. train_setup e a =
     Inr (a\<lparr>num_train_epochs :=
              (if 0 < max_steps a
               then max_steps a div (int (n_batches e) div gradient_accumulation_steps a) + 1
               else num_train_epochs a),
            warmup_steps :=
              (if warmup_steps a = 0
               then \<lceil>float_times e
                      (if 0 < max_steps a then max_steps a
                       else int (n_batches e) div gradient_accumulation_steps a
                              * num_train_epochs a)
                      (warmup_ratio a)\<rceil>
               else warmup_steps a)\<rparr>, t)"
  using assms by (auto simp add: train_setup_def Let_def)

text \<open>
  C7, as the code has it. The claim: \<open>train\<close> modifies no key of the configuration but
  \<open>warmup_steps\<close>. It also assigns \<open>num_train_epochs\<close>, when \<open>max_steps\<close> is positive
  (line 296). Both assignments stand before the loop, whose body only reads the
  configuration: in the model the loop takes it as an argument and does not return it. So
  the configuration \<open>train\<close> leaves behind is the one it was given at every key but these
  two. When \<open>max_steps\<close> is positive, \<open>num_train_epochs\<close> becomes
  \<open>max_steps // (len(train_dataloader) // gradient_accumulation_steps) + 1\<close>, and
  otherwise it keeps its value. When \<open>warmup_steps\<close> is zero it becomes
  \<open>math.ceil(t_total * warmup_ratio)\<close>, the product being the float one, and otherwise
  it keeps its value; \<open>t_total\<close> is \<open>max_steps\<close> when that is positive and
  \<open>len(train_dataloader) // gradient_accumulation_steps * num_train_epochs\<close> otherwise.
  When one of the divisions is by zero, \<open>train\<close> raises before it assigns anything.
\<close>

theorem train_assigns_two_keys:
  "fst (train e a) =
     (if gradient_accumulation_steps a = 0
         \<or> 0 < max_steps a \<and> int (n_batches e) div gradient_accumulation_steps a = 0
      then a
      else a\<lparr>num_train_epochs :=
               (if 0 < max_steps a
                then max_steps a div (int (n_batches e) div gradient_accumulation_steps a) + 1
                else num_train_epochs a),
             warmup_steps :=
               (if warmup_steps a = 0
                then \<lceil>float_times e
                       (if 0 < max_steps a then max_steps a
                        else int (n_batches e) div gradient_accumulation_steps a
                               * num_train_epochs a)
                       (warmup_ratio a)\<rceil>
                else warmup_steps a)\<rparr>)"
proof (cases "gradient_accumulation_steps a = 0
           \<or> 0 < max_steps a \<and> int (n_batches e) div gradient_accumulation_steps a = 0")
  case True
  from train_setup_raises [OF True] have "fst (train e a) = a" by (simp add: fst_train)
  with True show ?thesis by (simp only: if_True)
next
  case False
  from train_setup_assigns [OF False] obtain t where
    "train_setup e a =
     Inr (a\<lparr>num_train_epochs :=
              (if 0 < max_steps a
               then max_steps a div (int (n_batches e) div gradient_accumulation_steps a) + 1
               else num_train_epochs a),
            warmup_steps :=
              (if warmup_steps a = 0
               then \<lceil>float_times e
                      (if 0 < max_steps a then max_steps a
                       else int (n_batches e) div gradient_accumulation_steps a
                              * num_train_epochs a)
                      (warmup_ratio a)\<rceil>
               else warmup_steps a)\<rparr>, t)"
    by blast
  then have "fst (train e a) =
       a\<lparr>num_train_epochs :=
              (if 0 < max_steps a
               then max_steps a div (int (n_batches e) div gradient_accumulation_steps a) + 1
               else num_train_epochs a),
            warmup_steps :=
              (if warmup_steps a = 0
               then \<lceil>float_times e
                      (if 0 < max_steps a then max_steps a
                       else int (n_batches e) div gradient_accumulation_steps a
                              * num_train_epochs a)
                      (warmup_ratio a)\<rceil>
               else warmup_steps a)\<rparr>"
    by (simp add: fst_train)
  with False show ?thesis by (simp only: if_False)
qed

text \<open>
  With \<open>max_steps = 5\<close>, two batches an epoch and a warm-up ratio of 0.06 both keys are
  assigned: \<open>num_train_epochs\<close> becomes \<open>5 // 2 + 1 = 3\<close> and \<open>warmup_steps\<close> becomes
  \<open>ceil(5 * 0.06) = 1\<close>. With \<open>max_steps = -1\<close> and \<open>warmup_steps = 4\<close> the
  configuration is left as it was.
\<close>

theorem train_assigns_two_keys_witness:
  "fst (train example_env (example_args\<lparr>max_steps := 5\<rparr>))
     = example_args\<lparr>max_steps := 5, num_train_epochs := 3, warmup_steps := 1\<rparr>
   \<and> fst (train example_env (example_args\<lparr>warmup_steps := 4\<rparr>))
     = example_args\<lparr>warmup_steps := 4\<rparr>"
  using train_assigns_two_keys [of example_env "example_args\<lparr>max_steps := 5\<rparr>"]
    train_assigns_two_keys [of example_env "example_args\<lparr>warmup_steps := 4\<rparr>"]
  by (simp add: example_args_def example_env_def)

text \<open>
  The claim as written fails with \<open>max_steps = 5\<close> on two batches an epoch:
  \<open>num_train_epochs\<close> goes from 1 to \<open>5 // 2 + 1 = 3\<close>.
\<close>

theorem train_assigns_num_train_epochs_counterexample:
  "num_train_epochs (example_args\<lparr>max_steps := 5\<rparr>) = 1
   \<and> num_train_epochs (fst (train example_env (example_args\<lparr>max_steps := 5\<rparr>))) = 3"
  by (simp add: fst_train train_setup_def example_args_def example_env_def)

subsection \<open>The configuration after \<open>__init__\<close>\<close>

lemma init_args_result:
  assumes "init_args g cuda wandb p = Inr eff"
  shows "\<exists>a3. eff = a3(''model_name'' \<mapsto> PStr (init_model_name p),
                       ''model_type'' \<mapsto> PStr (init_model_type p))
            \<and> (\<forall>k. k \<noteq> ''fp16'' \<and> k \<noteq> ''wandb_project'' \<longrightarrow> a3 k = merge_args g (user_args p) k)
            \<and> a3 ''fp16'' = (if use_cuda p then merge_args g (user_args p) ''fp16''
                              else Some (PBool False))
            \<and> (\<exists>w. merge_args g (user_args p) ''wandb_project'' = Some w
                  \<and> a3 ''wandb_project'' = Some (if is_true w \<and> \<not> wandb then PNone else w))"
  using assms unfolding init_args_def Let_def
  apply (simp split: if_split_asm option.split_asm)
  subgoal for w
    by (rule exI [of _ "(merge_args g (user_args p))
          (''fp16'' \<mapsto> PBool False, ''wandb_project'' \<mapsto> PNone)"]) auto
  subgoal for w
    by (rule exI [of _ "(merge_args g (user_args p))(''fp16'' \<mapsto> PBool False)"]) auto
  subgoal for w
    by (rule exI [of _ "(merge_args g (user_args p))(''wandb_project'' \<mapsto> PNone)"]) auto
  subgoal for w
    by (rule exI [of _ "merge_args g (user_args p)"]) auto
  done

lemma merge_args_at:
  "merge_args g u k =
     (case (case u of None \<Rightarrow> None | Some d \<Rightarrow> d k) of
        Some v \<Rightarrow> Some v
      | None \<Rightarrow> (case g k of Some v \<Rightarrow> Some v | None \<Rightarrow> builtin_args k))"
  by (simp add: merge_args_def map_add_def split: option.splits)

text \<open>
  C6, as the code has it. The claim: the configuration \<open>__init__\<close> produces is the
  built-in defaults overridden key by key by the global defaults and then by the caller's
  dict, and a key that no override mentions keeps its default. That holds for the merge of
  lines 123--139 and for every key the rest of \<open>__init__\<close> leaves alone. Four keys are
  assigned afterwards, whatever the caller passed: \<open>fp16\<close> becomes \<open>False\<close> when
  \<open>use_cuda\<close> is off, \<open>wandb_project\<close> becomes \<open>None\<close> when it is set and wandb is
  not installed and keeps its merged value otherwise, and \<open>model_name\<close> and
  \<open>model_type\<close> are derived from the arguments of \<open>__init__\<close>.
\<close>

theorem init_args_layers:
  assumes "init_args g cuda wandb p = Inr eff"
  shows "(k \<notin> {''fp16'', ''wandb_project'', ''model_name'', ''model_type''} \<longrightarrow>
           eff k = (case (case user_args p of None \<Rightarrow> None | Some d \<Rightarrow> d k) of
                      Some v \<Rightarrow> Some v
                    | None \<Rightarrow> (case g k of Some v \<Rightarrow> Some v | None \<Rightarrow> builtin_args k)))
       \<and> eff ''fp16'' = (if use_cuda p then merge_args g (user_args p) ''fp16''
                          else Some (PBool False))
       \<and> (\<exists>w. merge_args g (user_args p) ''wandb_project'' = Some w
             \<and> eff ''wandb_project'' = Some (if is_true w \<and> \<not> wandb then PNone else w))
       \<and> eff ''model_name'' = Some (PStr (init_model_name p))
       \<and> eff ''model_type'' = Some (PStr (init_model_type p))"
proof -
  from init_args_result [OF assms] obtain a3 where
    eff: "eff = a3(''model_name'' \<mapsto> PStr (init_model_name p),
                       ''model_type'' \<mapsto> PStr (init_model_type p))"
    and other: "\<And>k. k \<noteq> ''fp16'' \<and> k \<noteq> ''wandb_project'' \<Longrightarrow> a3 k = merge_args g (user_args p) k"
    and fp: "a3 ''fp16'' = (if use_cuda p then merge_args g (user_args p) ''fp16''
                              else Some (PBool False))"
    and wp: "\<exists>w. merge_args g (user_args p) ''wandb_project'' = Some w
                  \<and> a3 ''wandb_project'' = Some (if is_true w \<and> \<not> wandb then PNone else w)"
    by blast
  have "k \<notin> {''fp16'', ''wandb_project'', ''model_name'', ''model_type''} \<Longrightarrow>
          eff k = merge_args g (user_args p) k"
    using other [of k] by (simp add: eff)
  moreover have "eff ''fp16'' = (if use_cuda p then merge_args g (user_args p) ''fp16''
                          else Some (PBool False))"
    using fp by (simp add: eff)
  moreover have "\<exists>w. merge_args g (user_args p) ''wandb_project'' = Some w
      \<and> eff ''wandb_project'' = Some (if is_true w \<and> \<not> wandb then PNone else w)"
    using wp by (simp add: eff)
  moreover have "eff ''model_name'' = Some (PStr (init_model_name p))"
    by (simp add: eff)
  moreover have "eff ''model_type'' = Some (PStr (init_model_type p))"
    by (simp add: eff)
  ultimately show ?thesis by (simp add: merge_args_at)
qed

text \<open>
  A BART model built on the CPU, without wandb, with
  \<open>args = {"fp16": True, "num_beams": 4, "wandb_project": "runs"}\<close>: the caller's
  \<open>num_beams\<close> wins, \<open>max_length\<close> keeps its built-in default, \<open>eval_batch_size\<close>
  comes from the global defaults, \<open>fp16\<close> is \<open>False\<close> and \<open>wandb_project\<close> is
  \<open>None\<close>.
\<close>

lemma example_init_ok:
  "\<exists>eff. init_args example_global_args False False example_init = Inr eff"
  by (simp add: init_args_def example_init_def example_global_args_def given_def MODEL_CLASSES_def
      registry_key_known_def merge_args_def Let_def is_true_def)

theorem init_args_layers_witness:
  "\<exists>eff. init_args example_global_args False False example_init = Inr eff
      \<and> eff ''num_beams'' = Some (PInt 4) \<and> eff ''max_length'' = Some (PInt 20)
      \<and> eff ''eval_batch_size'' = Some (PInt 8) \<and> eff ''fp16'' = Some (PBool False)
      \<and> eff ''wandb_project'' = Some PNone"
proof -
  obtain eff where e: "init_args example_global_args False False example_init = Inr eff"
    using example_init_ok by blast
  have "eff ''num_beams'' = Some (PInt 4)"
    using init_args_layers [OF e, of "''num_beams''"]
    by (simp add: example_init_def example_global_args_def builtin_args_def)
  moreover have "eff ''max_length'' = Some (PInt 20)"
    using init_args_layers [OF e, of "''max_length''"]
    by (simp add: example_init_def example_global_args_def builtin_args_def)
  moreover have "eff ''eval_batch_size'' = Some (PInt 8)"
    using init_args_layers [OF e, of "''eval_batch_size''"]
    by (simp add: example_init_def example_global_args_def builtin_args_def)
  moreover have "eff ''fp16'' = Some (PBool False)"
    using init_args_layers [OF e, of "''fp16''"]
    by (simp add: example_init_def)
  moreover have "merge_args example_global_args (user_args example_init) ''wandb_project''
      = Some (PStr ''runs'')"
    by (simp add: example_init_def example_global_args_def merge_args_def)
  then have "eff ''wandb_project'' = Some PNone"
    using init_args_layers [OF e, of "''wandb_project''"]
    by (auto simp add: is_true_def)
  ultimately show ?thesis using e by blast
qed

text \<open>
  The claim as written fails at the same input: the caller asked for \<open>fp16 = True\<close> and
  the merge has it, the configuration produced has \<open>fp16 = False\<close>.
\<close>

theorem init_args_not_merge_counterexample:
  "init_args example_global_args False False example_init
     \<noteq> Inr (merge_args example_global_args (user_args example_init))"
proof
  assume "init_args example_global_args False False example_init
     = Inr (merge_args example_global_args (user_args example_init))"
  from init_args_result [OF this] obtain a3 where
    eq: "merge_args example_global_args (user_args example_init)
       = a3(''model_name'' \<mapsto> PStr (init_model_name example_init),
            ''model_type'' \<mapsto> PStr (init_model_type example_init))"
    and fp: "a3 ''fp16'' = (if use_cuda example_init
                 then merge_args example_global_args (user_args example_init) ''fp16''
                 else Some (PBool False))"
    by blast
  from fp have "a3 ''fp16'' = Some (PBool False)" by (simp add: example_init_def)
  moreover from fun_cong [OF eq, of "''fp16''"]
  have "merge_args example_global_args (user_args example_init) ''fp16'' = a3 ''fp16''"
    by simp
  moreover have "merge_args example_global_args (user_args example_init) ''fp16'' = Some (PBool True)"
    by (simp add: example_init_def example_global_args_def merge_args_def)
  ultimately show False by simp
qed

subsection \<open>The order of the predictions\<close>

lemma chunks_cover:
  assumes "0 < B"
  shows "length xs \<le> ((length xs + B - 1) div B) * B"
proof -
  have "length xs + B - 1 < ((length xs + B - 1) div B) * B + B"
    using assms by (metis add.commute div_mult_mod_eq mod_less_divisor nat_add_left_cancel_less mult.commute)
  with assms show ?thesis by linarith
qed


lemma length_concat_outputs:
  assumes "0 < B" and "\<And>b. length (G b) = length b"
  shows "length (concat (map (\<lambda>k. G (take B (drop (k * B) xs))) [0..<m]))
           = min (m * B) (length xs)"
proof (induction m)
  case 0
  then show ?case by simp
next
  case (Suc m)
  have "length (concat (map (\<lambda>k. G (take B (drop (k * B) xs))) [0..<Suc m]))
          = min (m * B) (length xs) + min B (length xs - m * B)"
    using Suc assms(2) by simp
  also have "\<dots> = min (Suc m * B) (length xs)"
    by (simp add: min_def) arith
  finally show ?case .
qed

lemma nth_concat_outputs:
  assumes B: "0 < B" and G: "\<And>b. length (G b) = length b"
  shows "i < min (m * B) (length xs) \<Longrightarrow>
           concat (map (\<lambda>k. G (take B (drop (k * B) xs))) [0..<m]) ! i
             = G (take B (drop (i div B * B) xs)) ! (i mod B)"
proof (induction m)
  case 0
  then show ?case by simp
next
  case (Suc m)
  let ?front = "concat (map (\<lambda>k. G (take B (drop (k * B) xs))) [0..<m])"
  have len: "length ?front = min (m * B) (length xs)"
    using length_concat_outputs [OF B G] .
  show ?case
  proof (cases "i < min (m * B) (length xs)")
    case True
    with Suc.IH len show ?thesis by (simp add: nth_append)
  next
    case False
    with Suc.prems have lo: "m * B \<le> i" and hi: "i < m * B + B" and ix: "i < length xs"
      by (auto simp add: min_def split: if_splits)
    from lo hi B have d: "i div B = m"
      by (intro div_nat_eqI) (simp_all add: mult.commute)
    have md: "i mod B = i - m * B"
      using d by (simp add: modulo_nat_def)
    from lo ix have "length ?front = m * B" using len by simp
    with lo hi d md show ?thesis by (simp add: nth_append)
  qed
qed

text \<open>
  C5. For a positive \<open>eval_batch_size\<close>, and a \<open>generate\<close> that returns one sequence
  for each input of the batch it is given, \<open>predict\<close> returns as many strings as it was
  given, and the string at index \<open>i\<close> is the decoding, with
  \<open>skip_special_tokens=True\<close>, of row \<open>i mod eval_batch_size\<close> of the generation for the
  batch that holds input \<open>i\<close>: the consecutive block of \<open>eval_batch_size\<close> inputs starting
  at \<open>(i div eval_batch_size) * eval_batch_size\<close>.
\<close>

theorem predict_preserves_order:
  fixes generate :: "'enc \<Rightarrow> 'gen list"
  assumes B: "0 < eval_batch_size"
    and G: "\<And>batch. length (generate (batch_encode batch)) = length batch"
  shows "\<exists>preds. predict batch_encode generate decode eval_batch_size to_predict = Inr preds
           \<and> length preds = length to_predict
           \<and> (\<forall>i < length to_predict.
                 preds ! i =
                   decode True True
                     (generate (batch_encode
                        (take (nat eval_batch_size)
                           (drop (i div nat eval_batch_size * nat eval_batch_size) to_predict)))
                      ! (i mod nat eval_batch_size)))"
proof -
  let ?B = "nat eval_batch_size"
  let ?m = "(length to_predict + ?B - 1) div ?B"
  let ?G = "\<lambda>b. generate (batch_encode b)"
  let ?outs = "concat (map (\<lambda>k. ?G (take ?B (drop (k * ?B) to_predict))) [0..<?m])"
  from B have B': "0 < ?B" by simp
  have cover: "min (?m * ?B) (length to_predict) = length to_predict"
    using chunks_cover [OF B', of to_predict] by simp
  have p: "predict batch_encode generate decode eval_batch_size to_predict
             = Inr (map (decode True True) ?outs)"
    using B by (simp add: predict_def range_from_zero_def Let_def comp_def)
  have len: "length ?outs = length to_predict"
    using length_concat_outputs [of ?B ?G to_predict ?m, OF B' G] cover by simp
  have nth: "\<And>i. i < length to_predict \<Longrightarrow>
      ?outs ! i = ?G (take ?B (drop (i div ?B * ?B) to_predict)) ! (i mod ?B)"
    using nth_concat_outputs [of ?B ?G _ ?m to_predict, OF B' G] cover by simp
  show ?thesis using p len nth by simp
qed

text \<open>Three inputs in batches of two, with a model that reverses its input.\<close>

theorem predict_preserves_order_witness:
  "predict (\<lambda>batch. batch) (map rev) (\<lambda>skip clean out. out) 2 [''ab'', ''cd'', ''ef'']
     = Inr [''ba'', ''dc'', ''fe'']"
proof -
  from predict_preserves_order
         [of 2 "map rev" "\<lambda>batch. batch" "\<lambda>skip clean out. out" "[''ab'', ''cd'', ''ef'']"]
  obtain preds where
    p: "predict (\<lambda>batch. batch) (map rev) (\<lambda>skip clean out. out) 2 [''ab'', ''cd'', ''ef'']
          = Inr preds"
    and len: "length preds = 3"
    and nth: "\<forall>i<3. preds ! i =
                map rev (take 2 (drop (i div 2 * 2) [''ab'', ''cd'', ''ef''])) ! (i mod 2)"
    by auto
  from nth have "preds ! 0 = ''ba''" and "preds ! 1 = ''dc''" and "preds ! 2 = ''fe''"
    by simp_all
  with len have "preds = [''ba'', ''dc'', ''fe'']"
    by (intro nth_equalityI [of preds]) (auto simp add: less_Suc_eq numeral_3_eq_3 numeral_2_eq_2)
  with p show ?thesis by simp
qed

subsection \<open>The table of training progress\<close>







lemma early_stopping_keeps:
  assumes "state_of (early_stopping a gate m s) = Some s'"
  shows "training_progress_scores s' = training_progress_scores s
       \<and> progress_file s' = progress_file s
       \<and> global_step s' = global_step s
       \<and> tr_loss s' = tr_loss s
       \<and> steps_trained_in_current_epoch s' = steps_trained_in_current_epoch s
       \<and> epochs_trained s' = epochs_trained s
       \<and> current_loss s' = current_loss s
       \<and> n_evals s' = n_evals s
       \<and> epoch_number s' = epoch_number s"
  using assms
  by (auto simp add: early_stopping_def state_of_def improvement_def no_improvement_def
      record_best_def save_model_def do_return_def Let_def
      split: option.splits if_splits)







subsection \<open>What an evaluation and an optimizer update leave alone\<close>

text \<open>An evaluation that does not raise ends in the early-stopping update.\<close>

lemma evaluate_event_early_stopping:
  assumes "state_of (evaluate_event e a gate dir s) = Some s'"
  shows "\<exists>m s3. evaluate_event e a gate dir s = early_stopping a gate m s3
           \<and> map_of (eval_results e (n_evals s)) (early_stopping_metric a) = Some m
           \<and> global_step s3 = global_step s
           \<and> tr_loss s3 = tr_loss s
           \<and> steps_trained_in_current_epoch s3 = steps_trained_in_current_epoch s
           \<and> epochs_trained s3 = epochs_trained s
           \<and> current_loss s3 = current_loss s
           \<and> epoch_number s3 = epoch_number s
           \<and> best_eval_metric s3 = best_eval_metric s
           \<and> early_stopping_counter s3 = early_stopping_counter s
           \<and> n_evals s3 = Suc (n_evals s)"
proof -
  let ?s2 = "if save_eval_checkpoints a then save_model dir (s\<lparr>n_evals := Suc (n_evals s)\<rparr>)
             else s\<lparr>n_evals := Suc (n_evals s)\<rparr>"
  have s2: "training_progress_scores ?s2 = training_progress_scores s"
    "global_step ?s2 = global_step s" "current_loss ?s2 = current_loss s"
    by (simp_all add: save_model_def)
  from assms obtain t1 where
    t1: "append_to ''global_step'' (IntCell (global_step s)) (training_progress_scores s) = Inr t1"
    unfolding evaluate_event_def Let_def s2
    by (cases "append_to ''global_step'' (IntCell (global_step s)) (training_progress_scores s)")
       (simp_all add: state_of_def)
  from assms t1 obtain cl where cl: "current_loss s = Some cl"
    unfolding evaluate_event_def Let_def s2
    by (cases "current_loss s") (simp_all add: state_of_def)
  from assms t1 cl obtain t2 where t2: "append_to ''train_loss'' (FloatCell cl) t1 = Inr t2"
    unfolding evaluate_event_def Let_def s2
    by (cases "append_to ''train_loss'' (FloatCell cl) t1") (simp_all add: state_of_def)
  from assms t1 cl t2 obtain t3 where
    t3: "append_results (eval_results e (n_evals s)) t2 = Inr t3"
    unfolding evaluate_event_def Let_def s2
    by (cases "append_results (eval_results e (n_evals s)) t2") (simp_all add: state_of_def)
  from assms t1 cl t2 t3 have same: "same_lengths t3"
    unfolding evaluate_event_def Let_def s2
    by (cases "same_lengths t3") (simp_all add: state_of_def)
  from assms t1 cl t2 t3 same obtain m where
    m: "map_of (eval_results e (n_evals s)) (early_stopping_metric a) = Some m"
    unfolding evaluate_event_def Let_def s2
    by (cases "map_of (eval_results e (n_evals s)) (early_stopping_metric a)")
       (simp_all add: state_of_def)
  let ?s3 = "?s2\<lparr>training_progress_scores := t3, progress_file := Some t3\<rparr>"
  have "evaluate_event e a gate dir s = early_stopping a gate m ?s3"
    using t1 cl t2 t3 same m unfolding evaluate_event_def Let_def s2 by simp
  moreover have "global_step ?s3 = global_step s" "tr_loss ?s3 = tr_loss s"
    "steps_trained_in_current_epoch ?s3 = steps_trained_in_current_epoch s"
    "epochs_trained ?s3 = epochs_trained s" "current_loss ?s3 = current_loss s"
    "epoch_number ?s3 = epoch_number s" "best_eval_metric ?s3 = best_eval_metric s"
    "early_stopping_counter ?s3 = early_stopping_counter s" "n_evals ?s3 = Suc (n_evals s)"
    by (simp_all add: save_model_def)
  ultimately show ?thesis using m by blast
qed

lemma evaluate_event_keeps:
  assumes "state_of (evaluate_event e a gate dir s) = Some s'"
  shows "global_step s' = global_step s
       \<and> tr_loss s' = tr_loss s
       \<and> steps_trained_in_current_epoch s' = steps_trained_in_current_epoch s
       \<and> epochs_trained s' = epochs_trained s
       \<and> current_loss s' = current_loss s
       \<and> epoch_number s' = epoch_number s
       \<and> n_evals s' = Suc (n_evals s)"
proof -
  from evaluate_event_early_stopping [OF assms] obtain m s3 where
    ev: "evaluate_event e a gate dir s = early_stopping a gate m s3"
    and s3: "global_step s3 = global_step s" "tr_loss s3 = tr_loss s"
      "steps_trained_in_current_epoch s3 = steps_trained_in_current_epoch s"
      "epochs_trained s3 = epochs_trained s" "current_loss s3 = current_loss s"
      "epoch_number s3 = epoch_number s" "n_evals s3 = Suc (n_evals s)"
    by blast
  from assms ev have "state_of (early_stopping a gate m s3) = Some s'" by simp
  from early_stopping_keeps [OF this] s3 show ?thesis by simp
qed

lemma optimizer_update_keeps:
  assumes "state_of (optimizer_update e a s) = Some s'"
  shows "global_step s' = global_step s + 1
       \<and> tr_loss s' = tr_loss s
       \<and> steps_trained_in_current_epoch s' = steps_trained_in_current_epoch s
       \<and> epochs_trained s' = epochs_trained s
       \<and> current_loss s' = current_loss s
       \<and> epoch_number s' = epoch_number s"
proof -
  let ?s1 = "s\<lparr>global_step := global_step s + 1\<rparr>"
  let ?s2 = "if 0 < logging_steps a \<and> global_step ?s1 mod logging_steps a = 0
             then ?s1\<lparr>logging_loss := tr_loss ?s1\<rparr> else ?s1"
  let ?s3 = "if 0 < save_steps a \<and> global_step ?s2 mod save_steps a = 0
             then save_model (StepCheckpoint (global_step ?s2)) ?s2 else ?s2"
  have s3: "global_step ?s3 = global_step s + 1" "tr_loss ?s3 = tr_loss s"
    "steps_trained_in_current_epoch ?s3 = steps_trained_in_current_epoch s"
    "epochs_trained ?s3 = epochs_trained s" "current_loss ?s3 = current_loss s"
    "epoch_number ?s3 = epoch_number s"
    by (simp_all add: save_model_def)
  show ?thesis
  proof (cases "evaluate_during_training a \<and> 0 < evaluate_during_training_steps a
                  \<and> global_step ?s3 mod evaluate_during_training_steps a = 0")
    case True
    then have "optimizer_update e a s
        = evaluate_event e a (use_early_stopping a) (StepCheckpoint (global_step ?s3)) ?s3"
      unfolding optimizer_update_def Let_def by (rule if_P)
    with assms evaluate_event_keeps [of e a "use_early_stopping a"
        "StepCheckpoint (global_step ?s3)" ?s3 s'] s3
    show ?thesis by simp
  next
    case False
    then have "optimizer_update e a s = Running ?s3"
      unfolding optimizer_update_def Let_def by (rule if_not_P)
    with assms s3 show ?thesis by (simp add: state_of_def)
  qed
qed

subsection \<open>Gradient accumulation\<close>

lemma batch_step_skipped:
  "0 < steps_trained_in_current_epoch s \<Longrightarrow>
     batch_step e a ep step s
       = Running (s\<lparr>steps_trained_in_current_epoch := steps_trained_in_current_epoch s - 1\<rparr>)"
  by (simp add: batch_step_def)

lemma batch_step_trained:
  assumes "\<not> 0 < steps_trained_in_current_epoch s"
    and "state_of (batch_step e a ep step s) = Some s'"
  shows "gradient_accumulation_steps a \<noteq> 0
       \<and> global_step s' = global_step s
            + (if (int step + 1) mod gradient_accumulation_steps a = 0 then 1 else 0)
       \<and> steps_trained_in_current_epoch s' = steps_trained_in_current_epoch s
       \<and> epochs_trained s' = epochs_trained s
       \<and> current_loss s' = Some (batch_loss e ep step)
       \<and> tr_loss s' = tr_loss s
            + (if 1 < gradient_accumulation_steps a
               then batch_loss e ep step / real_of_int (gradient_accumulation_steps a)
               else batch_loss e ep step)"
proof -
  let ?gas = "gradient_accumulation_steps a"
  let ?l = "batch_loss e ep step"
  let ?s1 = "s\<lparr>current_loss := Some ?l,
               tr_loss := tr_loss s + (if 1 < ?gas then ?l / real_of_int ?gas else ?l)\<rparr>"
  have unfolded: "batch_step e a ep step s =
      (if ?gas = 0 then Raised ZeroDivisionError
       else if (int step + 1) mod ?gas = 0 then optimizer_update e a ?s1
       else Running ?s1)"
    using assms(1) by (simp add: batch_step_def Let_def)
  from assms(2) unfolded have gas: "?gas \<noteq> 0"
    by (auto simp add: state_of_def)
  show ?thesis
  proof (cases "(int step + 1) mod ?gas = 0")
    case True
    with unfolded gas have "batch_step e a ep step s = optimizer_update e a ?s1" by simp
    with assms(2) optimizer_update_keeps [of e a ?s1 s'] gas True show ?thesis by simp
  next
    case False
    with unfolded gas have "batch_step e a ep step s = Running ?s1" by simp
    with assms(2) gas False show ?thesis by (auto simp add: state_of_def)
  qed
qed

lemma run_batches_append:
  "run_batches e a ep (xs @ ys) s =
     (case run_batches e a ep xs s of
        Running s' \<Rightarrow> run_batches e a ep ys s'
      | Returned s' v \<Rightarrow> Returned s' v
      | Raised err \<Rightarrow> Raised err)"
  by (induction xs arbitrary: s) (simp_all split: outcome.splits)

lemma div_succ:
  fixes k g :: int
  assumes "0 < g"
  shows "(k + 1) div g = k div g + (if (k + 1) mod g = 0 then 1 else 0)"
proof -
  define q where "q = k div g"
  define r where "r = k mod g"
  have k: "k = q * g + r" by (simp add: q_def r_def)
  have r: "0 \<le> r" "r < g" using assms by (simp_all add: r_def)
  show ?thesis
  proof (cases "r + 1 = g")
    case True
    then have "k + 1 = (q + 1) * g" using k by (simp add: algebra_simps)
    then have "(k + 1) div g = q + 1" "(k + 1) mod g = 0" using assms by simp_all
    then show ?thesis by (simp add: q_def)
  next
    case False
    with r have r1: "0 \<le> r + 1" "r + 1 < g" by simp_all
    have k1: "k + 1 = q * g + (r + 1)" using k by simp
    have "(q * g + (r + 1)) div g = q + (r + 1) div g"
      using assms by (intro div_mult_self3) simp
    moreover have "(q * g + (r + 1)) mod g = (r + 1) mod g"
      by (rule mod_mult_self3)
    moreover have "(r + 1) div g = 0" "(r + 1) mod g = r + 1"
      using r1 by (simp_all add: div_pos_pos_trivial mod_pos_pos_trivial)
    ultimately have "(k + 1) div g = q" "(k + 1) mod g = r + 1"
      unfolding k1 by simp_all
    with r1 r show ?thesis by (simp add: q_def)
  qed
qed

lemma run_batches_count:
  assumes gas: "0 < gradient_accumulation_steps a"
    and nskip: "\<not> 0 < steps_trained_in_current_epoch s"
  shows "run_batches e a ep [0..<k] s = Running s' \<Longrightarrow>
           global_step s' = global_step s + int k div gradient_accumulation_steps a
           \<and> steps_trained_in_current_epoch s' = steps_trained_in_current_epoch s"
proof (induction k arbitrary: s')
  case 0
  then show ?case by simp
next
  case (Suc k)
  from Suc.prems obtain s1 where
    front: "run_batches e a ep [0..<k] s = Running s1"
    and last: "batch_step e a ep k s1 = Running s'"
    by (auto simp add: run_batches_append split: outcome.splits)
  from Suc.IH [OF front] have
    g1: "global_step s1 = global_step s + int k div gradient_accumulation_steps a"
    and st1: "steps_trained_in_current_epoch s1 = steps_trained_in_current_epoch s"
    by simp_all
  from st1 nskip have "\<not> 0 < steps_trained_in_current_epoch s1" by simp
  moreover from last have "state_of (batch_step e a ep k s1) = Some s'"
    by (simp add: state_of_def)
  ultimately have
    "global_step s' = global_step s1
        + (if (int k + 1) mod gradient_accumulation_steps a = 0 then 1 else 0)"
    and "steps_trained_in_current_epoch s' = steps_trained_in_current_epoch s1"
    using batch_step_trained [of s1 e a ep k s'] by simp_all
  with g1 st1 div_succ [OF gas, of "int k"] show ?case
    by (simp add: add.commute)
qed

text \<open>
  C4, as the code has it. The claim: \<open>global_step\<close> is incremented exactly on the batches
  whose index plus one is a multiple of \<open>gradient_accumulation_steps\<close>. That holds for
  the batches the loop trains on. A batch that the loop skips while it catches up with a
  checkpoint (\<open>steps_trained_in_current_epoch > 0\<close>) only decrements that counter, whatever
  its index. So: a skipped batch leaves \<open>global_step\<close> as it is; a trained batch that does
  not raise increments it by one if \<open>(step + 1) % gradient_accumulation_steps == 0\<close> and
  leaves it otherwise; and the first \<open>k\<close> batches of an epoch without skipped batches
  advance it by \<open>k // gradient_accumulation_steps\<close>.
\<close>

theorem global_step_per_accumulation:
  "(0 < steps_trained_in_current_epoch s \<longrightarrow>
      batch_step e a ep step s
        = Running (s\<lparr>steps_trained_in_current_epoch := steps_trained_in_current_epoch s - 1\<rparr>))
   \<and> (\<not> 0 < steps_trained_in_current_epoch s
        \<and> state_of (batch_step e a ep step s) = Some s' \<longrightarrow>
      global_step s' = global_step s
        + (if (int step + 1) mod gradient_accumulation_steps a = 0 then 1 else 0))
   \<and> (0 < gradient_accumulation_steps a
        \<and> \<not> 0 < steps_trained_in_current_epoch s
        \<and> run_batches e a ep [0..<k] s = Running s'' \<longrightarrow>
      global_step s'' = global_step s + int k div gradient_accumulation_steps a)"
proof (intro conjI impI)
  assume "0 < steps_trained_in_current_epoch s"
  then show "batch_step e a ep step s
        = Running (s\<lparr>steps_trained_in_current_epoch := steps_trained_in_current_epoch s - 1\<rparr>)"
    by (rule batch_step_skipped)
next
  assume "\<not> 0 < steps_trained_in_current_epoch s
        \<and> state_of (batch_step e a ep step s) = Some s'"
  then show "global_step s' = global_step s
        + (if (int step + 1) mod gradient_accumulation_steps a = 0 then 1 else 0)"
    using batch_step_trained [of s e a ep step s'] by blast
next
  assume "0 < gradient_accumulation_steps a
        \<and> \<not> 0 < steps_trained_in_current_epoch s
        \<and> run_batches e a ep [0..<k] s = Running s''"
  then show "global_step s'' = global_step s + int k div gradient_accumulation_steps a"
    using run_batches_count [of a s e ep k s''] by blast
qed

text \<open>Two accumulation steps on the two batches of an epoch: one optimizer update.\<close>

lemma two_batches_run:
  "run_batches example_env (example_args\<lparr>gradient_accumulation_steps := 2\<rparr>) 0 [0..<2]
     initial_state
   = Running (initial_state\<lparr>global_step := 1, tr_loss := 1, current_loss := Some 1\<rparr>)"
  by code_simp

lemma second_batch_runs:
  "state_of (batch_step example_env (example_args\<lparr>gradient_accumulation_steps := 2\<rparr>) 0 1
      initial_state)
   = Some (initial_state\<lparr>global_step := 1, tr_loss := 1 / 2, current_loss := Some 1\<rparr>)"
  by code_simp

theorem global_step_per_accumulation_witness:
  "batch_step example_env (example_args\<lparr>gradient_accumulation_steps := 2\<rparr>) 0 1
       (initial_state\<lparr>steps_trained_in_current_epoch := 1\<rparr>)
     = Running (initial_state\<lparr>steps_trained_in_current_epoch := 0\<rparr>)
   \<and> map_option global_step
        (state_of (batch_step example_env (example_args\<lparr>gradient_accumulation_steps := 2\<rparr>)
           0 1 initial_state))
       = Some (global_step initial_state + 1)
   \<and> map_option global_step
        (state_of (run_batches example_env (example_args\<lparr>gradient_accumulation_steps := 2\<rparr>)
           0 [0..<2] initial_state))
       = Some (global_step initial_state + 2 div 2)"
proof -
  let ?a = "example_args\<lparr>gradient_accumulation_steps := 2\<rparr>"
  let ?s1 = "initial_state\<lparr>global_step := 1, tr_loss := 1 / 2, current_loss := Some 1\<rparr>"
  let ?s2 = "initial_state\<lparr>global_step := 1, tr_loss := 1, current_loss := Some 1\<rparr>"
  have "batch_step example_env ?a 0 1 (initial_state\<lparr>steps_trained_in_current_epoch := 1\<rparr>)
     = Running (initial_state\<lparr>steps_trained_in_current_epoch := 0\<rparr>)"
    using global_step_per_accumulation
      [of "initial_state\<lparr>steps_trained_in_current_epoch := 1\<rparr>" example_env ?a 0 1]
    by simp
  moreover
  have "global_step ?s1 = global_step initial_state + 1"
    using global_step_per_accumulation [of initial_state example_env ?a 0 1 ?s1]
      second_batch_runs
    by (simp add: initial_state_def)
  moreover
  have "global_step ?s2 = global_step initial_state + 2 div 2"
    using global_step_per_accumulation [of initial_state example_env ?a 0 _ _ 2 ?s2]
      two_batches_run
    by (simp add: initial_state_def)
  ultimately show ?thesis
    using second_batch_runs two_batches_run by (simp add: state_of_def)
qed

text \<open>
  The claim as written fails on a resumed run. From \<open>outputs/checkpoint-5\<close>, with six
  batches an epoch and two accumulation steps, \<open>train\<close> skips two batches of the epoch it
  resumes in. The second of them has index 1, and \<open>(1 + 1) % 2 == 0\<close>, yet after both
  \<open>global_step\<close> is still 5.
\<close>

theorem skipped_batch_counterexample:
  "resume resumed_env resumed_args initial_state
     = Inr (initial_state\<lparr>global_step := 5, epochs_trained := 1,
              steps_trained_in_current_epoch := 2\<rparr>)
   \<and> (int 1 + 1) mod gradient_accumulation_steps resumed_args = 0
   \<and> run_batches resumed_env resumed_args 1 [0, 1]
        (initial_state\<lparr>global_step := 5, steps_trained_in_current_epoch := 2\<rparr>)
     = Running (initial_state\<lparr>global_step := 5\<rparr>)"
  by code_simp

subsection \<open>Resuming from a checkpoint\<close>

lemma split_on_nonempty: "split_on sep xs \<noteq> []"
  by (induction xs) (auto split: list.splits)

lemma split_on_no_sep: "sep \<notin> set ys \<Longrightarrow> split_on sep ys = [ys]"
  by (induction ys) auto

lemma split_on_append:
  "split_on sep (xs @ sep # ys) = split_on sep xs @ split_on sep ys"
proof (induction xs)
  case Nil
  then show ?case by (simp add: split_on_no_sep)
next
  case (Cons x xs)
  then show ?case
    using split_on_nonempty [of sep xs]
    by (cases "split_on sep xs") auto
qed

lemma digit_char_props:
  assumes "d < 10"
  shows "is_digit (digit_char d)" and "digit_val (digit_char d) = d"
  using assms by (simp_all add: is_digit_def digit_val_def digit_char_def)

lemma str_of_nat_digits: "list_all is_digit (str_of_nat n)"
proof (induction n rule: str_of_nat.induct)
  case (1 n)
  show ?case
  proof (cases "n < 10")
    case True
    then show ?thesis by (subst str_of_nat.simps) (simp add: digit_char_props)
  next
    case False
    with 1 have "list_all is_digit (str_of_nat (n div 10))" by simp
    moreover have "is_digit (digit_char (n mod 10))" by (simp add: digit_char_props)
    ultimately show ?thesis using False by (subst str_of_nat.simps) simp
  qed
qed

lemma str_of_nat_nonempty: "str_of_nat n \<noteq> []"
  by (subst str_of_nat.simps) simp

lemma str_of_nat_value: "foldl (\<lambda>acc c. 10 * acc + digit_val c) 0 (str_of_nat n) = n"
proof (induction n rule: str_of_nat.induct)
  case (1 n)
  show ?case
  proof (cases "n < 10")
    case True
    then show ?thesis by (subst str_of_nat.simps) (simp add: digit_char_props)
  next
    case False
    with 1 have "foldl (\<lambda>acc c. 10 * acc + digit_val c) 0 (str_of_nat (n div 10)) = n div 10"
      by simp
    then show ?thesis using False by (subst str_of_nat.simps) (simp add: digit_char_props)
  qed
qed

lemma digits_value_digits:
  "list_all is_digit ds \<Longrightarrow>
     digits_value acc ds = Some (foldl (\<lambda>acc c. 10 * acc + digit_val c) acc ds)"
  by (induction ds arbitrary: acc) simp_all

lemma digit_not_space: "is_digit c \<Longrightarrow> \<not> is_space c"
  by (auto simp add: is_digit_def is_space_def)

lemma digit_not_sign: "is_digit c \<Longrightarrow> c \<noteq> CHR ''-'' \<and> c \<noteq> CHR ''+'' \<and> c \<noteq> CHR ''/''"
  by (auto simp add: is_digit_def)

lemma strip_digits:
  assumes "list_all is_digit ds"
  shows "strip ds = ds"
proof (cases ds rule: rev_cases)
  case Nil
  then show ?thesis by (simp add: strip_def)
next
  case (snoc front l)
  with assms have "\<not> is_space l" by (simp add: digit_not_space)
  moreover from assms have "dropWhile is_space ds = ds"
    by (cases ds) (simp_all add: digit_not_space)
  ultimately show ?thesis using snoc by (simp add: strip_def)
qed

lemma py_int_digits:
  assumes "list_all is_digit ds" and "ds \<noteq> []"
  shows "py_int ds = Inr (int (foldl (\<lambda>acc c. 10 * acc + digit_val c) 0 ds))"
proof -
  from assms obtain c cs where ds: "ds = c # cs" by (cases ds) auto
  with assms have c: "is_digit c" and cs: "list_all is_digit cs" by simp_all
  have "unsigned_value ds = Some (foldl (\<lambda>acc c. 10 * acc + digit_val c) 0 ds)"
    using c digits_value_digits [OF cs] by (simp add: unsigned_value_def ds)
  with strip_digits [OF assms(1)] digit_not_sign [OF c] show ?thesis
    by (simp add: py_int_def ds)
qed

lemma py_int_str_of_nat: "py_int (str_of_nat n) = Inr (int n)"
  using py_int_digits [OF str_of_nat_digits str_of_nat_nonempty, of n]
  by (simp add: str_of_nat_value)

lemma str_of_nat_no_dash: "CHR ''-'' \<notin> set (str_of_nat n)"
  using str_of_nat_digits [of n] digit_not_sign by (auto simp add: list_all_iff)

lemma str_of_nat_no_slash: "CHR ''/'' \<notin> set (str_of_nat n)"
  using str_of_nat_digits [of n] digit_not_sign by (auto simp add: list_all_iff)

lemma checkpoint_suffix_step:
  assumes "last (split_on (CHR ''/'') name) = stem @ ''-'' @ str_of_nat n"
    and "CHR ''-'' \<notin> set stem"
  shows "checkpoint_suffix name = str_of_nat n"
proof -
  have "split_on (CHR ''-'') (stem @ ''-'' @ str_of_nat n) = [stem, str_of_nat n]"
    using split_on_append [of "CHR ''-''" stem "str_of_nat n"] assms(2) str_of_nat_no_dash
    by (simp add: split_on_no_sep)
  with assms(1) show ?thesis by (simp add: checkpoint_suffix_def)
qed

lemma checkpoint_suffix_step_epoch:
  assumes "last (split_on (CHR ''/'') name) = stem @ ''-'' @ str_of_nat n @ ''-'' @ rest"
    and "CHR ''-'' \<notin> set stem"
  shows "checkpoint_suffix name = str_of_nat n"
proof -
  have "split_on (CHR ''-'') (stem @ ''-'' @ str_of_nat n @ ''-'' @ rest)
      = stem # str_of_nat n # split_on (CHR ''-'') rest"
    using split_on_append [of "CHR ''-''" stem "str_of_nat n @ ''-'' @ rest"]
      split_on_append [of "CHR ''-''" "str_of_nat n" rest] assms(2) str_of_nat_no_dash
    by (simp add: split_on_no_sep)
  moreover have "split_on (CHR ''-'') rest \<noteq> []" by (rule split_on_nonempty)
  ultimately show ?thesis using assms(1) by (simp add: checkpoint_suffix_def)
qed

lemma resume_parsed:
  assumes "model_name a \<noteq> []" and "path_exists e (model_name a)"
    and "py_int (checkpoint_suffix (model_name a)) = Inr n"
    and "gradient_accumulation_steps a \<noteq> 0"
    and "int (n_batches e) div gradient_accumulation_steps a \<noteq> 0"
  shows "resume e a s =
     Inr (s\<lparr>global_step := n,
            epochs_trained := n div (int (n_batches e) div gradient_accumulation_steps a),
            steps_trained_in_current_epoch :=
              n mod (int (n_batches e) div gradient_accumulation_steps a)\<rparr>)"
  using assms by (simp add: resume_def Let_def)

lemma resume_not_parsed:
  assumes "py_int (checkpoint_suffix (model_name a)) = Inl err"
  shows "resume e a s = Inr s"
  using assms by (simp add: resume_def)

text \<open>
  C3, as the code has it. The claim: whenever the last component of \<open>model_name\<close> ends in
  \<open>-<N>\<close>, \<open>train\<close> resumes at step \<open>N\<close>, in epoch \<open>N // q\<close> at step \<open>N % q\<close> of
  it, where \<open>q\<close> is the number of batches an epoch divided by the accumulation steps;
  and a suffix that is no integer makes \<open>train\<close> start at step 0 without an error. The
  code reads the step from the last field of the component when it has one or two fields
  between dashes, and from its second field when it has more, as in
  \<open>checkpoint-<N>-epoch-<M>\<close>. So for an existing path whose last component is
  \<open><stem>-<N>\<close> or \<open><stem>-<N>-<rest>\<close>, with no dash in the stem, and \<open>q\<close> not zero,
  \<open>train\<close> resumes as the claim says; and when the field read is no integer, \<open>train\<close>
  starts at step 0 and nothing is raised.
\<close>

theorem resume_from_checkpoint_name:
  assumes ex: "path_exists e (model_name a)"
    and q: "q = int (n_batches e) div gradient_accumulation_steps a"
    and stem: "CHR ''-'' \<notin> set stem"
  shows "(gradient_accumulation_steps a \<noteq> 0 \<and> q \<noteq> 0
            \<and> (last (split_on (CHR ''/'') (model_name a)) = stem @ ''-'' @ str_of_nat n
                \<or> last (split_on (CHR ''/'') (model_name a))
                     = stem @ ''-'' @ str_of_nat n @ ''-'' @ rest) \<longrightarrow>
          resume e a s =
            Inr (s\<lparr>global_step := int n, epochs_trained := int n div q,
                   steps_trained_in_current_epoch := int n mod q\<rparr>))
       \<and> (py_int (checkpoint_suffix (model_name a)) = Inl ValueError \<longrightarrow>
            resume e a initial_state = Inr initial_state
            \<and> global_step initial_state = 0)"
proof (rule conjI; rule impI)
  assume h: "gradient_accumulation_steps a \<noteq> 0 \<and> q \<noteq> 0
            \<and> (last (split_on (CHR ''/'') (model_name a)) = stem @ ''-'' @ str_of_nat n
                \<or> last (split_on (CHR ''/'') (model_name a))
                     = stem @ ''-'' @ str_of_nat n @ ''-'' @ rest)"
  then have "checkpoint_suffix (model_name a) = str_of_nat n"
    using checkpoint_suffix_step [of "model_name a" stem n, OF _ stem]
      checkpoint_suffix_step_epoch [of "model_name a" stem n rest, OF _ stem]
    by blast
  then have p: "py_int (checkpoint_suffix (model_name a)) = Inr (int n)"
    by (simp add: py_int_str_of_nat)
  from h have ne: "model_name a \<noteq> []" by auto
  from resume_parsed [OF ne ex p] h q
  show "resume e a s =
            Inr (s\<lparr>global_step := int n, epochs_trained := int n div q,
                   steps_trained_in_current_epoch := int n mod q\<rparr>)"
    by simp
next
  assume "py_int (checkpoint_suffix (model_name a)) = Inl ValueError"
  then show "resume e a initial_state = Inr initial_state \<and> global_step initial_state = 0"
    by (simp add: resume_not_parsed initial_state_def)
qed

text \<open>
  From \<open>outputs/checkpoint-5\<close>, with six batches an epoch and two accumulation steps:
  step 5, one epoch done, two steps into the next. From \<open>outputs/best_model\<close>: a start at
  step 0.
\<close>

theorem resume_from_checkpoint_name_witness:
  "resume resumed_env resumed_args initial_state
     = Inr (initial_state\<lparr>global_step := 5, epochs_trained := 1,
              steps_trained_in_current_epoch := 2\<rparr>)
   \<and> resume (resumed_env\<lparr>path_exists := (\<lambda>p. True)\<rparr>)
        (resumed_args\<lparr>model_name := ''outputs/best_model''\<rparr>) initial_state
     = Inr initial_state"
proof -
  have 1: "path_exists resumed_env (model_name resumed_args)" by code_simp
  have 2: "(3::int) = int (n_batches resumed_env) div gradient_accumulation_steps resumed_args"
    by code_simp
  have 3: "CHR ''-'' \<notin> set ''checkpoint''" by simp
  have 4: "last (split_on (CHR ''/'') (model_name resumed_args))
      = ''checkpoint'' @ ''-'' @ str_of_nat 5"
    by code_simp
  have 5: "gradient_accumulation_steps resumed_args \<noteq> 0" by code_simp
  from resume_from_checkpoint_name [OF 1 2 3, of 5 _ initial_state] 4 5
  have "resume resumed_env resumed_args initial_state
     = Inr (initial_state\<lparr>global_step := 5, epochs_trained := 1,
              steps_trained_in_current_epoch := 2\<rparr>)"
    by simp
  moreover
  let ?e = "resumed_env\<lparr>path_exists := (\<lambda>p. True)\<rparr>"
  let ?a = "resumed_args\<lparr>model_name := ''outputs/best_model''\<rparr>"
  have 6: "path_exists ?e (model_name ?a)" by simp
  have 7: "py_int (checkpoint_suffix (model_name ?a)) = Inl ValueError" by code_simp
  from resume_from_checkpoint_name [OF 6 refl 3] 7
  have "resume ?e ?a initial_state = Inr initial_state" by blast
  ultimately show ?thesis by blast
qed

text \<open>
  The claim as written fails for \<open>outputs/my-model-500\<close>: the component has three
  fields, the one read is \<open>model\<close>, and \<open>train\<close> starts at step 0, not at step 500.
\<close>

theorem resume_second_field_counterexample:
  "checkpoint_suffix ''outputs/my-model-500'' = ''model''
   \<and> resume (resumed_env\<lparr>path_exists := (\<lambda>p. True)\<rparr>)
        (resumed_args\<lparr>model_name := ''outputs/my-model-500''\<rparr>) initial_state
     = Inr initial_state
   \<and> global_step initial_state = 0"
  by code_simp

subsection \<open>The return of early stopping\<close>

























end
